theory Spec2Isabelle
  imports Complex_Main
begin

section \<open>JavaScript values read by \<open>lib/cursor.js\<close>\<close>

text \<open>
  The controller of \<open>lib/cursor.js\<close> receives untyped JavaScript values. The
  methods coerce their arguments (\<open>'' + type\<close>, \<open>+n\<close>, \<open>y < 0\<close>,
  \<open>isNaN(val)\<close>, \<open>join\<close>), so the arguments of methods are the primitive
  values; the two arguments of the constructor may be objects, of which only properties
  are read.

  A number is an IEEE double: a finite value (always a rational), \<open>NaN\<close> or an
  infinity. The file negates, compares and floors numbers; each of these is exact on
  doubles, so a finite number is modelled by the rational it denotes (\<open>-0\<close> is
  identified with \<open>0\<close>: the code treats both alike, and both print as \<open>0\<close>).
\<close>

datatype jsnum = Finite rat | NaN | PosInf | NegInf

datatype prim = Undefined | Null | Bool bool | Num jsnum | Str string

datatype jsval =
    Prim prim
  | Object "(string \<times> jsval) list"
  | Function "(string \<times> jsval) list"

text \<open>
  What the language runtime computes and the model has no closed form for: reading a
  string as a number, printing a number that is not an integer of the safe range
  (shortest round-trip digits, exponent notation), and the capitals of text that is not
  ASCII. They are parameters of the model.
\<close>

record host =
  StringToNumber :: "string \<Rightarrow> jsnum"
  NumberToString :: "rat \<Rightarrow> string"
  UpperCase :: "string \<Rightarrow> string"

text \<open>\<open>typeof v\<close>; note \<open>typeof null === 'object'\<close>.\<close>

fun typeof :: "jsval \<Rightarrow> string" where
  "typeof (Prim Undefined) = ''undefined''"
| "typeof (Prim Null) = ''object''"
| "typeof (Prim (Bool b)) = ''boolean''"
| "typeof (Prim (Num n)) = ''number''"
| "typeof (Prim (Str s)) = ''string''"
| "typeof (Object ps) = ''object''"
| "typeof (Function ps) = ''function''"

text \<open>
  \<open>v.name\<close>: reading a property of \<open>undefined\<close> or \<open>null\<close> throws a
  TypeError (the result \<open>None\<close>); a property that is absent reads as
  \<open>undefined\<close>. The other primitives have none of the properties this file reads
  (\<open>write\<close>, \<open>on\<close>, \<open>isTTY\<close>, \<open>enabled\<close>, \<open>buffering\<close>).
\<close>

fun get_prop :: "jsval \<Rightarrow> string \<Rightarrow> jsval option" where
  "get_prop (Prim Undefined) name = None"
| "get_prop (Prim Null) name = None"
| "get_prop (Prim p) name = Some (Prim Undefined)"
| "get_prop (Object ps) name =
     (case map_of ps name of None \<Rightarrow> Some (Prim Undefined) | Some v \<Rightarrow> Some v)"
| "get_prop (Function ps) name =
     (case map_of ps name of None \<Rightarrow> Some (Prim Undefined) | Some v \<Rightarrow> Some v)"

text \<open>ToBoolean, as \<open>!!v\<close>, \<open>if (v)\<close>, \<open>v && w\<close> and \<open>v || w\<close> apply it.\<close>

fun truthy :: "prim \<Rightarrow> bool" where
  "truthy Undefined = False"
| "truthy Null = False"
| "truthy (Bool b) = b"
| "truthy (Num (Finite q)) = (q \<noteq> 0)"
| "truthy (Num NaN) = False"
| "truthy (Num PosInf) = True"
| "truthy (Num NegInf) = True"
| "truthy (Str s) = (s \<noteq> [])"

fun truthy_val :: "jsval \<Rightarrow> bool" where
  "truthy_val (Prim p) = truthy p"
| "truthy_val (Object ps) = True"
| "truthy_val (Function ps) = True"

text \<open>ToNumber on primitives.\<close>

fun ToNumber :: "host \<Rightarrow> prim \<Rightarrow> jsnum" where
  "ToNumber H Undefined = NaN"
| "ToNumber H Null = Finite 0"
| "ToNumber H (Bool b) = Finite (if b then 1 else 0)"
| "ToNumber H (Num n) = n"
| "ToNumber H (Str s) = StringToNumber H s"

text \<open>Decimal digits of a natural number.\<close>

fun dec :: "nat \<Rightarrow> string" where
  "dec n = (if n < 10 then [''0123456789'' ! n]
            else dec (n div 10) @ [''0123456789'' ! (n mod 10)])"

text \<open>
  Number::toString. An integer of magnitude at most \<open>2^53\<close> prints as its decimal
  digits; every other finite number is printed by the host.
\<close>

fun num_text :: "host \<Rightarrow> jsnum \<Rightarrow> string" where
  "num_text H NaN = ''NaN''"
| "num_text H PosInf = ''Infinity''"
| "num_text H NegInf = ''-Infinity''"
| "num_text H (Finite q) =
     (if of_int \<lfloor>q\<rfloor> = q \<and> \<bar>q\<bar> \<le> 9007199254740992
      then (if q < 0 then ''-'' @ dec (nat (- \<lfloor>q\<rfloor>)) else dec (nat \<lfloor>q\<rfloor>))
      else NumberToString H q)"

text \<open>ToString on primitives, as \<open>'' + v\<close> and \<open>'text' + v\<close> apply it.\<close>

fun ToString :: "host \<Rightarrow> prim \<Rightarrow> string" where
  "ToString H Undefined = ''undefined''"
| "ToString H Null = ''null''"
| "ToString H (Bool b) = (if b then ''true'' else ''false'')"
| "ToString H (Num n) = num_text H n"
| "ToString H (Str s) = s"

text \<open>
  The text \<open>Array.prototype.join\<close> gives an element: the empty string for
  \<open>undefined\<close> and \<open>null\<close>, ToString otherwise.
\<close>

fun join_text :: "host \<Rightarrow> prim \<Rightarrow> string" where
  "join_text H Undefined = []"
| "join_text H Null = []"
| "join_text H p = ToString H p"

fun join_strings :: "string \<Rightarrow> string list \<Rightarrow> string" where
  "join_strings sep [] = []"
| "join_strings sep [s] = s"
| "join_strings sep (s # t # ts) = s @ sep @ join_strings sep (t # ts)"

definition join :: "host \<Rightarrow> string \<Rightarrow> prim list \<Rightarrow> string" where
  "join H sep xs = join_strings sep (map (join_text H) xs)"

text \<open>Unary minus, \<open>a < b\<close> on numbers, and \<open>Math.floor\<close>.\<close>

fun js_neg :: "jsnum \<Rightarrow> jsnum" where
  "js_neg (Finite q) = Finite (- q)"
| "js_neg NaN = NaN"
| "js_neg PosInf = NegInf"
| "js_neg NegInf = PosInf"

fun js_less :: "jsnum \<Rightarrow> jsnum \<Rightarrow> bool" where
  "js_less NaN b = False"
| "js_less a NaN = False"
| "js_less (Finite p) (Finite q) = (p < q)"
| "js_less (Finite p) PosInf = True"
| "js_less (Finite p) NegInf = False"
| "js_less PosInf b = False"
| "js_less NegInf (Finite q) = True"
| "js_less NegInf PosInf = True"
| "js_less NegInf NegInf = False"

fun Math_floor :: "jsnum \<Rightarrow> jsnum" where
  "Math_floor (Finite q) = Finite (of_int \<lfloor>q\<rfloor>)"
| "Math_floor n = n"

fun isNaN :: "host \<Rightarrow> prim \<Rightarrow> bool" where
  "isNaN H v = (ToNumber H v = NaN)"

fun isFinite :: "host \<Rightarrow> prim \<Rightarrow> bool" where
  "isFinite H v = (case ToNumber H v of Finite q \<Rightarrow> True | _ \<Rightarrow> False)"

section \<open>Helpers of \<open>lib/cursor.js\<close>\<close>

fun isUndefined :: "prim \<Rightarrow> bool" where
  "isUndefined val = (val = Undefined)"

text \<open>
  \<open>String.prototype.toUpperCase\<close>. In ASCII text a letter \<open>a\<close> to \<open>z\<close> becomes
  its capital and every other character stays; the capitals of any other text are the
  host's (the capital of one character can be several characters).
\<close>

definition ascii :: "char \<Rightarrow> bool" where
  "ascii ch = (of_char ch < (128 :: nat))"

definition ascii_capital :: "char \<Rightarrow> char" where
  "ascii_capital ch =
     (case map_of (zip ''abcdefghijklmnopqrstuvwxyz'' ''ABCDEFGHIJKLMNOPQRSTUVWXYZ'') ch of
        None \<Rightarrow> ch | Some u \<Rightarrow> u)"

definition toUpperCase :: "host \<Rightarrow> string \<Rightarrow> string" where
  "toUpperCase H s = (if list_all ascii s then map ascii_capital s else UpperCase H s)"

text \<open>
  \<open>ucFirst\<close>, lines 235 to 237: \<open>str.charAt(0)\<close> is the first character as a string
  (the empty string when there is none), \<open>str.substring(1)\<close> what follows it.
\<close>

definition ucFirst :: "host \<Rightarrow> string \<Rightarrow> string" where
  "ucFirst H str = toUpperCase H (take 1 str) @ drop 1 str"

fun toAxis :: "host \<Rightarrow> prim \<Rightarrow> jsnum" where
  "toAxis H val =
     (if isUndefined val \<or> isNaN H val \<or> \<not> isFinite H val
      then Finite 1
      else Math_floor (ToNumber H val))"

text \<open>\<open>toArray\<close> copies the \<open>arguments\<close> object into an array, element by element.\<close>

fun toArray :: "'a list \<Rightarrow> 'a list" where
  "toArray [] = []"
| "toArray (x # xs) = x # toArray xs"

section \<open>The code table\<close>

text \<open>
  \<open>require('./consts')\<close>: the module is not part of the sources, so the table is a
  parameter of the model. \<open>beep_code\<close> is \<open>consts.beep\<close>; \<open>actions\<close> and
  \<open>movements\<close> map a method name to \<open>String(code)\<close>.
\<close>

record codes =
  saveCursor :: string
  savePosition :: string
  restoreCursor :: string
  restorePosition :: string

record ansi_consts =
  prefix :: string
  beep_code :: string
  codes :: codes
  actions :: "string \<rightharpoonup> string"
  movements :: "string \<rightharpoonup> string"

section \<open>The controller\<close>

text \<open>
  What the controller does to its stream is recorded as the list of calls it makes on
  it, oldest first: \<open>stream.write.apply(stream, arguments)\<close>,
  \<open>stream.emit(name, value)\<close> and \<open>stream.on(name, listener)\<close>.
\<close>

datatype stream_call =
    StreamWrite "prim list"
  | StreamEmit string prim
  | StreamOn string

text \<open>
  The exceptions: \<open>Error('A valid Stream instance must be passed in.')\<close>,
  \<open>Error('Unexpected args length: ' + n)\<close>, and the TypeError of the language for a
  property read on \<open>null\<close> or a call of something that is not a function.
\<close>

datatype error = InvalidStream | UnexpectedArgsLength nat | TypeError

text \<open>
  The fields of a \<open>Cursor\<close>. \<open>priv_buffer\<close> is \<open>_buffer\<close>: one entry per
  buffered call of \<open>write\<close>, holding its argument list. \<open>stream_calls\<close> is the
  record of calls on \<open>stream\<close>.
\<close>

record cursor =
  stream :: jsval
  enabled :: bool
  buffering :: bool
  priv_buffer :: "prim list list"
  bold :: bool
  italic :: bool
  inverse' :: bool
  underline :: bool
  newlines :: nat
  stream_calls :: "stream_call list"

text \<open>
  Modelled from the spec: the newline notifier (\<open>require('./newline')\<close>) is not part
  of the sources. It wraps the stream so that each newline written produces one
  notification; the listener of the constructor adds one to \<open>newlines\<close> for each.
  The number of notifications of one write call is the number of newline characters of
  the data written, when it is a string.
\<close>

definition newline_notifications :: "prim list \<Rightarrow> nat" where
  "newline_notifications arguments =
     (case arguments of
        Str s # rest \<Rightarrow> length (filter (\<lambda>ch. ch = CHR 0x0A) s)
      | _ \<Rightarrow> 0)"

subsection \<open>Construction\<close>

text \<open>
  \<open>Cursor(stream, options)\<close>, lines 6 to 45. The guard reads \<open>stream.write\<close> only
  when \<open>typeof stream\<close> is \<open>'object'\<close>, which \<open>null\<close> satisfies.
  \<open>emitNewlineEvent(stream)\<close> is the notifier above; \<open>stream.on\<close> is called, so
  it must be a function.
\<close>

definition Cursor :: "jsval \<Rightarrow> jsval \<Rightarrow> error + cursor" where
  "Cursor strm options =
     (if typeof strm \<noteq> ''object'' then Inl InvalidStream
      else case get_prop strm ''write'' of
        None \<Rightarrow> Inl TypeError
      | Some w \<Rightarrow>
          if typeof w \<noteq> ''function'' then Inl InvalidStream
          else
            (case (if truthy_val options then get_prop options ''enabled'' else Some options) of
               None \<Rightarrow> Inl TypeError
             | Some opt_enabled \<Rightarrow>
            (case (if typeof opt_enabled = ''undefined''
                   then get_prop strm ''isTTY'' else Some opt_enabled) of
               None \<Rightarrow> Inl TypeError
             | Some enabled0 \<Rightarrow>
            (case (if truthy_val options then get_prop options ''buffering'' else Some options) of
               None \<Rightarrow> Inl TypeError
             | Some opt_buffering \<Rightarrow>
            (case get_prop strm ''on'' of
               None \<Rightarrow> Inl TypeError
             | Some on \<Rightarrow>
                 if typeof on \<noteq> ''function'' then Inl TypeError
                 else Inr \<lparr> stream = strm,
                            enabled = truthy_val enabled0,
                            buffering = truthy_val opt_buffering,
                            priv_buffer = [],
                            bold = False, italic = False, inverse' = False,
                            underline = False,
                            newlines = 0,
                            stream_calls = [StreamOn ''newline''] \<rparr>)))))"

subsection \<open>enable, disable, write, \<open>_write\<close>, buffer, flush\<close>

text \<open>
  Names: \<open>write'\<close> is \<open>write\<close>, \<open>priv_write\<close> is \<open>_write\<close>, \<open>delete'\<close> and
  \<open>insert'\<close> are \<open>delete\<close> and \<open>insert\<close>; the field \<open>inverse'\<close> is
  \<open>inverse\<close>. A method returns \<open>this\<close>, so its model returns the controller after
  the call, with the exception thrown, if the method can throw.
\<close>

definition enable :: "cursor \<Rightarrow> cursor" where
  "enable c = c\<lparr>enabled := True\<rparr>"

definition disable :: "cursor \<Rightarrow> cursor" where
  "disable c = c\<lparr>enabled := False\<rparr>"

text \<open>\<open>data\<close>, the first parameter of \<open>write\<close>: \<open>undefined\<close> when no argument is passed.\<close>

fun first_arg :: "prim list \<Rightarrow> prim" where
  "first_arg [] = Undefined"
| "first_arg (d # rest) = d"

text \<open>
  \<open>Cursor.prototype.write\<close>, lines 59 to 75, on the whole argument list. The result
  is \<open>this\<close>: the controller after the call. The stream is an event emitter, as the
  spec takes it to be: its \<open>write\<close> and \<open>emit\<close> return normally, and the model
  records the two calls.
\<close>

definition write' :: "cursor \<Rightarrow> prim list \<Rightarrow> cursor" where
  "write' c arguments =
     (if buffering c then c\<lparr>priv_buffer := priv_buffer c @ [arguments]\<rparr>
      else c\<lparr>newlines := newlines c + newline_notifications arguments,
             stream_calls := stream_calls c @
               [StreamWrite arguments, StreamEmit ''data'' (first_arg arguments)]\<rparr>)"

text \<open>\<open>Cursor.prototype._write\<close>, lines 77 to 84.\<close>

definition priv_write :: "cursor \<Rightarrow> prim \<Rightarrow> cursor" where
  "priv_write c data = (if enabled c then write' c [data] else c)"

definition buffer :: "cursor \<Rightarrow> cursor" where
  "buffer c = c\<lparr>buffering := True\<rparr>"

text \<open>
  The callback of \<open>this._buffer.map\<close> in \<open>flush\<close>: it throws at the first entry
  whose argument list does not have exactly one element.
\<close>

fun flush_map :: "prim list list \<Rightarrow> error + prim list" where
  "flush_map [] = Inr []"
| "flush_map (args # rest) =
     (if length args \<noteq> 1 then Inl (UnexpectedArgsLength (length args))
      else case flush_map rest of
             Inl e \<Rightarrow> Inl e
           | Inr vs \<Rightarrow> Inr (first_arg args # vs))"

text \<open>
  \<open>Cursor.prototype.flush\<close>, lines 91 to 107. The result is the exception thrown, if
  any, and the controller as the call leaves it: \<open>buffering\<close> is assigned before the
  \<open>map\<close> that can throw, \<open>_buffer\<close> after it.
\<close>

definition flush :: "host \<Rightarrow> cursor \<Rightarrow> error option \<times> cursor" where
  "flush H c =
     (let c1 = c\<lparr>buffering := False\<rparr> in
      case flush_map (priv_buffer c1) of
        Inl e \<Rightarrow> (Some e, c1)
      | Inr vs \<Rightarrow> (None, write' (c1\<lparr>priv_buffer := []\<rparr>) [Str (join H [] vs)]))"

subsection \<open>Generated movement and action methods\<close>

text \<open>
  The method that the loop of lines 115 to 127 installs for a movement with code
  \<open>code\<close>, and the one that the loop of lines 129 to 136 installs for an action.
\<close>

definition movement :: "ansi_consts \<Rightarrow> host \<Rightarrow> string \<Rightarrow> prim list \<Rightarrow> cursor \<Rightarrow> cursor" where
  "movement K H code arguments c =
     (let cc = (if length arguments > 0
                then join H '';'' (map (\<lambda>v. Num (toAxis H v)) (toArray arguments)) @ code
                else code)
      in priv_write c (Str (prefix K @ cc)))"

definition action :: "ansi_consts \<Rightarrow> string \<Rightarrow> cursor \<Rightarrow> cursor" where
  "action K code c = priv_write c (Str (prefix K @ code))"

text \<open>
  \<open>this[methodName]\<close> for a name that the file itself does not define: the generated
  method, if a table has the name. The actions are installed after the movements, so
  an action replaces a movement of the same name. (The tables are taken not to name
  \<open>enable\<close>, \<open>disable\<close>, \<open>write\<close>, \<open>_write\<close>, \<open>buffer\<close> or \<open>flush\<close>, which
  a generated method would replace.)
\<close>

datatype generated_method = Movement string | Action string

definition generated :: "ansi_consts \<Rightarrow> string \<Rightarrow> generated_method option" where
  "generated K name =
     (case actions K name of
        Some code \<Rightarrow> Some (Action code)
      | None \<Rightarrow> (case movements K name of
                   Some code \<Rightarrow> Some (Movement code)
                 | None \<Rightarrow> None))"

fun invoke :: "ansi_consts \<Rightarrow> host \<Rightarrow> generated_method \<Rightarrow> prim list \<Rightarrow> cursor \<Rightarrow> cursor" where
  "invoke K H (Movement code) arguments c = movement K H code arguments c"
| "invoke K H (Action code) arguments c = action K code c"

text \<open>
  \<open>this.name(arguments)\<close>: a TypeError when the controller has no such method. That
  is the case of \<open>this.emit\<close>, which \<open>erase\<close>, \<open>delete\<close> and \<open>insert\<close> call
  for an unknown type: \<open>lib/cursor.js\<close> defines the constructor and every method of
  the prototype, none of them \<open>emit\<close>, and sets up no inheritance, so the controller
  has an \<open>emit\<close> only if a table names one. The argument \<open>new Error(msg)\<close> is
  represented by the string that every coercion of it gives, \<open>'Error: ' + msg\<close>.
\<close>

definition call_method ::
  "ansi_consts \<Rightarrow> host \<Rightarrow> string \<Rightarrow> prim list \<Rightarrow> cursor \<Rightarrow> error option \<times> cursor" where
  "call_method K H name arguments c =
     (case generated K name of
        None \<Rightarrow> (Some TypeError, c)
      | Some m \<Rightarrow> (None, invoke K H m arguments c))"

subsection \<open>move, beep, erase, delete, insert, save, restore\<close>

text \<open>\<open>Cursor.prototype.move\<close>, lines 139 to 154. An exception of the first call ends the method.\<close>

definition move :: "ansi_consts \<Rightarrow> host \<Rightarrow> prim \<Rightarrow> prim \<Rightarrow> cursor \<Rightarrow> error option \<times> cursor" where
  "move K H x y c =
     (let (e, c1) =
        (if js_less (ToNumber H y) (Finite 0)
         then call_method K H ''moveUp'' [Num (js_neg (ToNumber H y))] c
         else if js_less (Finite 0) (ToNumber H y)
         then call_method K H ''moveDown'' [y] c
         else (None, c))
      in case e of
           Some err \<Rightarrow> (Some err, c1)
         | None \<Rightarrow>
             (if js_less (Finite 0) (ToNumber H x)
              then call_method K H ''forward'' [x] c1
              else if js_less (ToNumber H x) (Finite 0)
              then call_method K H ''backward'' [Num (js_neg (ToNumber H x))] c1
              else (None, c1)))"

definition beep :: "ansi_consts \<Rightarrow> cursor \<Rightarrow> cursor" where
  "beep K c = priv_write c (Str (beep_code K))"

text \<open>\<open>Cursor.prototype.erase\<close>, lines 160 to 178.\<close>

definition erase :: "ansi_consts \<Rightarrow> host \<Rightarrow> prim \<Rightarrow> cursor \<Rightarrow> error option \<times> cursor" where
  "erase K H type c =
     (let unknown = call_method K H ''emit''
            [Str ''error'', Str (''Error: '' @ ''Unknown erase type: '' @ ToString H type)] c in
      if truthy type then
        (if type = Str ''$'' then call_method K H ''eraseRight'' [] c
         else if type = Str ''^'' then call_method K H ''eraseLeft'' [] c
         else (let methodName = ''erase'' @ ucFirst H ([] @ ToString H type) in
               case generated K methodName of
                 Some m \<Rightarrow> (None, invoke K H m [] c)
               | None \<Rightarrow> unknown))
      else unknown)"

text \<open>\<open>Cursor.prototype.delete\<close>, lines 180 to 192.\<close>

definition delete' :: "ansi_consts \<Rightarrow> host \<Rightarrow> prim \<Rightarrow> prim \<Rightarrow> cursor \<Rightarrow> error option \<times> cursor" where
  "delete' K H type n c =
     (let unknown = call_method K H ''emit''
            [Str ''error'', Str (''Error: '' @ ''Unknown delete type: '' @ ToString H type)] c in
      if truthy type then
        (let methodName = ''delete'' @ ucFirst H ([] @ ToString H type) in
         case generated K methodName of
           Some m \<Rightarrow> (None, invoke K H m [n] c)
         | None \<Rightarrow> unknown)
      else unknown)"

text \<open>\<open>Cursor.prototype.insert\<close>, lines 194 to 211; \<open>n || 1\<close> is evaluated first.\<close>

definition insert' ::
  "ansi_consts \<Rightarrow> host \<Rightarrow> prim \<Rightarrow> prim \<Rightarrow> cursor \<Rightarrow> error option \<times> cursor" where
  "insert' K H mode n c =
     (let n1 = (if truthy n then n else Num (Finite 1)) in
      if mode = Bool True then (None, priv_write c (Str (prefix K @ ''4h'')))
      else if mode = Bool False then (None, priv_write c (Str (prefix K @ ''l'')))
      else if mode = Str ''line''
      then (None, priv_write c (Str (prefix K @ num_text H (ToNumber H n1) @ ''L'')))
      else if mode = Str ''char''
      then (None, priv_write c (Str (prefix K @ num_text H (ToNumber H n1) @ ''@'')))
      else call_method K H ''emit''
             [Str ''error'', Str (''Error: '' @ ''Unknown insert type: '' @ ToString H mode)] c)"

text \<open>\<open>Cursor.prototype.save\<close> and \<open>restore\<close>, lines 213 to 225.\<close>

definition save :: "ansi_consts \<Rightarrow> prim \<Rightarrow> cursor \<Rightarrow> cursor" where
  "save K withAttributes c =
     (if enabled c
      then write' c [Str (if truthy withAttributes
                          then saveCursor (codes K) else savePosition (codes K))]
      else c)"

definition restore :: "ansi_consts \<Rightarrow> prim \<Rightarrow> cursor \<Rightarrow> cursor" where
  "restore K withAttributes c =
     (if enabled c
      then write' c [Str (if truthy withAttributes
                          then restoreCursor (codes K) else restorePosition (codes K))]
      else c)"

subsection \<open>The decomposition of \<open>move\<close> as the spec words it\<close>

text \<open>
  The spec describes \<open>move(x, y)\<close> as a list of primitive calls, the vertical one
  first: \<open>moveUp(-y)\<close> for a negative \<open>y\<close>, \<open>moveDown(y)\<close> for a positive one,
  then \<open>forward(x)\<close> for a positive \<open>x\<close>, \<open>backward(-x)\<close> for a negative one,
  and nothing for a zero. \<open>move_plan\<close> is that list, \<open>run_calls\<close> makes the calls
  in order and stops at the first exception.
\<close>

definition move_plan :: "host \<Rightarrow> prim \<Rightarrow> prim \<Rightarrow> (string \<times> prim) list" where
  "move_plan H x y =
     (if js_less (ToNumber H y) (Finite 0) then [(''moveUp'', Num (js_neg (ToNumber H y)))]
      else if js_less (Finite 0) (ToNumber H y) then [(''moveDown'', y)]
      else []) @
     (if js_less (Finite 0) (ToNumber H x) then [(''forward'', x)]
      else if js_less (ToNumber H x) (Finite 0) then [(''backward'', Num (js_neg (ToNumber H x)))]
      else [])"

fun run_calls ::
  "ansi_consts \<Rightarrow> host \<Rightarrow> (string \<times> prim) list \<Rightarrow> cursor \<Rightarrow> error option \<times> cursor" where
  "run_calls K H [] c = (None, c)"
| "run_calls K H ((name, a) # rest) c =
     (case call_method K H name [a] c of
        (Some err, c1) \<Rightarrow> (Some err, c1)
      | (None, c1) \<Rightarrow> run_calls K H rest c1)"

subsection \<open>The invariant of the queue\<close>

text \<open>
  The spec's invariant of the data model: the queue is non-empty only while
  \<open>buffering\<close> is true.
\<close>

definition buffer_invariant :: "cursor \<Rightarrow> bool" where
  "buffer_invariant c = (buffering c \<or> priv_buffer c = [])"

section \<open>Example values\<close>

text \<open>
  Values at which the model is evaluated: a code table of the shape that
  \<open>lib/cursor.js\<close> reads (the prefix is ESC \<open>[\<close>), a host whose conversions are
  never consulted at the inputs used (numbers of the safe integer range, ASCII text), a stream
  object with \<open>write\<close>, \<open>on\<close>, \<open>emit\<close> and a true \<open>isTTY\<close>, and the
  controller that \<open>Cursor(example_stream)\<close> constructs.
\<close>

definition example_consts :: ansi_consts where
  "example_consts =
     \<lparr> prefix = [CHR 0x1B, CHR ''[''],
       beep_code = [CHR 0x07],
       codes = \<lparr> saveCursor = [CHR 0x1B, CHR ''7''],
                 savePosition = [CHR 0x1B, CHR ''['', CHR ''s''],
                 restoreCursor = [CHR 0x1B, CHR ''8''],
                 restorePosition = [CHR 0x1B, CHR ''['', CHR ''u''] \<rparr>,
       actions = [''eraseRight'' \<mapsto> ''K'', ''eraseLeft'' \<mapsto> ''1K'',
                  ''eraseLine'' \<mapsto> ''2K''],
       movements = [''moveUp'' \<mapsto> ''A'', ''moveDown'' \<mapsto> ''B'', ''forward'' \<mapsto> ''C'',
                    ''backward'' \<mapsto> ''D'', ''deleteLine'' \<mapsto> ''M''] \<rparr>"

definition example_host :: host where
  "example_host =
     \<lparr> StringToNumber = (\<lambda>s. NaN), NumberToString = (\<lambda>q. []), UpperCase = (\<lambda>s. s) \<rparr>"

definition example_stream :: jsval where
  "example_stream =
     Object [(''write'', Function []), (''on'', Function []), (''emit'', Function []),
             (''isTTY'', Prim (Bool True))]"

definition example_cursor :: cursor where
  "example_cursor =
     \<lparr> stream = example_stream, enabled = True, buffering = False, priv_buffer = [],
       bold = False, italic = False, inverse' = False, underline = False,
       newlines = 0, stream_calls = [StreamOn ''newline''] \<rparr>"

text \<open>
  The controller that \<open>buffer(); write('a', 'utf8'); flush()\<close> leaves when called on
  the example controller (the call of \<open>flush\<close> throws).
\<close>

definition failed_flush_cursor :: cursor where
  "failed_flush_cursor =
     snd (flush example_host (write' (buffer example_cursor) [Str ''a'', Str ''utf8'']))"

section \<open>Basic facts\<close>

lemma toArray_id: "toArray xs = xs"
  by (induction xs) simp_all

lemma Cursor_example: "Cursor example_stream (Prim Undefined) = Inr example_cursor"
  by (simp add: Cursor_def example_stream_def example_cursor_def)

lemma newline_notifications_plain:
  "newline_notifications [Str ''ab''] = 0" "newline_notifications [Str []] = 0"
  by (simp_all add: newline_notifications_def)

lemma priv_write_disabled: "\<not> enabled c \<Longrightarrow> priv_write c d = c"
  by (simp add: priv_write_def)

lemma priv_write_enabled: "enabled c \<Longrightarrow> priv_write c d = write' c [d]"
  by (simp add: priv_write_def)

lemma floor_examples:
  "\<lfloor>37 / 10 :: rat\<rfloor> = 3" "\<lfloor>- (37 / 10) :: rat\<rfloor> = - 4"
  by (simp_all add: floor_eq_iff)

lemma join_numbers:
  "join H sep (map (\<lambda>v. Num (toAxis H v)) vs) =
     join_strings sep (map (\<lambda>v. num_text H (toAxis H v)) vs)"
  by (simp add: join_def comp_def)

lemma enabled_write' [simp]: "enabled (write' c arguments) = enabled c"
  by (simp add: write'_def)

lemma move_refines_plan: "move K H x y c = run_calls K H (move_plan H x y) c"
  unfolding move_def move_plan_def
  by (cases "call_method K H ''moveUp'' [Num (js_neg (ToNumber H y))] c";
      cases "call_method K H ''moveDown'' [y] c";
      cases "call_method K H ''forward'' [x] c";
      cases "call_method K H ''backward'' [Num (js_neg (ToNumber H x))] c")
     (auto split: option.splits prod.splits)

lemma call_movement:
  "generated K name = Some (Movement code) \<Longrightarrow> enabled c \<Longrightarrow>
   call_method K H name [Num (Finite (of_int k))] c =
     (None, write' c [Str (prefix K @ num_text H (Finite (of_int k)) @ code)])"
  by (simp add: call_method_def movement_def join_def priv_write_def)

text \<open>
  The guard of the constructor, and the default of \<open>enabled\<close>, where the stream is
  not \<open>null\<close> and the options are \<open>undefined\<close> or a truthy value without
  \<open>enabled\<close>.
\<close>

lemma Cursor_guard:
  "strm \<noteq> Prim Null \<Longrightarrow>
   (Cursor strm options = Inl InvalidStream) =
   (typeof strm \<noteq> ''object'' \<or> (\<exists>w. get_prop strm ''write'' = Some w \<and> typeof w \<noteq> ''function''))"
  by (cases strm rule: typeof.cases)
     (auto simp: Cursor_def split: option.splits if_splits)

lemma Cursor_default_enabled:
  "Cursor strm options = Inr c \<Longrightarrow>
   options = Prim Undefined \<or> truthy_val options \<and> get_prop options ''enabled'' = Some (Prim Undefined) \<Longrightarrow>
   \<exists>t. get_prop strm ''isTTY'' = Some t \<and> enabled c = truthy_val t"
  by (auto simp: Cursor_def split: option.splits if_splits)

text \<open>
  The invariant of the queue holds after construction and is kept by every method; by
  \<open>flush\<close> when it returns. A \<open>flush\<close> that throws always leaves it broken.
\<close>

lemma buffer_invariant_constructed:
  "Cursor strm options = Inr c \<Longrightarrow> buffer_invariant c"
  by (auto simp: Cursor_def buffer_invariant_def split: option.splits if_splits)

lemma buffer_invariant_write': "buffer_invariant c \<Longrightarrow> buffer_invariant (write' c arguments)"
  by (auto simp: buffer_invariant_def write'_def)

lemma buffer_invariant_priv_write: "buffer_invariant c \<Longrightarrow> buffer_invariant (priv_write c d)"
  by (simp add: priv_write_def buffer_invariant_write')

lemma buffer_invariant_invoke:
  "buffer_invariant c \<Longrightarrow> buffer_invariant (invoke K H m arguments c)"
  by (cases m) (simp_all add: movement_def action_def Let_def buffer_invariant_priv_write)

lemma buffer_invariant_call_method:
  "buffer_invariant c \<Longrightarrow> buffer_invariant (snd (call_method K H name arguments c))"
  by (cases "generated K name") (simp_all add: call_method_def buffer_invariant_invoke)

lemma buffer_invariant_run_calls:
  "buffer_invariant c \<Longrightarrow> buffer_invariant (snd (run_calls K H calls c))"
proof (induction calls arbitrary: c)
  case Nil
  then show ?case by simp
next
  case (Cons call calls)
  obtain name a where call: "call = (name, a)"
    by (cases call)
  obtain e c1 where step: "call_method K H name [a] c = (e, c1)"
    by (cases "call_method K H name [a] c")
  have "buffer_invariant c1"
    using buffer_invariant_call_method [OF Cons.prems, of K H name "[a]"] step by simp
  then show ?case
    using Cons.IH [of c1] by (cases e) (simp_all add: call step)
qed

lemma buffer_invariant_kept:
  assumes "buffer_invariant c"
  shows "buffer_invariant (enable c)" "buffer_invariant (disable c)"
    "buffer_invariant (buffer c)" "buffer_invariant (beep K c)"
    "buffer_invariant (snd (move K H x y c))"
    "buffer_invariant (snd (erase K H type c))"
    "buffer_invariant (snd (delete' K H type n c))"
    "buffer_invariant (snd (insert' K H mode n c))"
    "buffer_invariant (save K w c)" "buffer_invariant (restore K w c)"
proof -
  show "buffer_invariant (enable c)" "buffer_invariant (disable c)"
    "buffer_invariant (buffer c)"
    using assms by (simp_all add: buffer_invariant_def enable_def disable_def buffer_def)
  show "buffer_invariant (beep K c)"
    using assms by (simp add: beep_def buffer_invariant_priv_write)
  show "buffer_invariant (snd (move K H x y c))"
    using assms by (simp add: move_refines_plan buffer_invariant_run_calls)
  show "buffer_invariant (snd (erase K H type c))"
    using assms
    by (simp add: erase_def Let_def buffer_invariant_call_method buffer_invariant_invoke
        split: option.splits)
  show "buffer_invariant (snd (delete' K H type n c))"
    using assms
    by (simp add: delete'_def Let_def buffer_invariant_call_method buffer_invariant_invoke
        split: option.splits)
  show "buffer_invariant (snd (insert' K H mode n c))"
    using assms
    by (simp add: insert'_def Let_def buffer_invariant_priv_write buffer_invariant_call_method)
  show "buffer_invariant (save K w c)" "buffer_invariant (restore K w c)"
    using assms by (simp_all add: save_def restore_def buffer_invariant_write')
qed

lemma flush_map_failure: "flush_map q = Inl e \<Longrightarrow> q \<noteq> []"
  by (cases q) simp_all

lemma returned_flush_keeps_invariant:
  "flush H c = (None, c') \<Longrightarrow> buffer_invariant c'"
  by (auto simp: flush_def Let_def write'_def buffer_invariant_def split: sum.splits)

lemma failed_flush_breaks_invariant:
  "flush H c = (Some e, c') \<Longrightarrow> c' = c\<lparr>buffering := False\<rparr> \<and> \<not> buffer_invariant c'"
  by (auto simp: flush_def Let_def buffer_invariant_def split: sum.splits
      dest: flush_map_failure)

section \<open>A disabled controller\<close>

text \<open>
  Claim C1. On a controller whose \<open>enabled\<close> flag is false, every gated method that
  emits an escape sequence returns the controller as it was, so the record of calls on
  the stream gains no write: each generated movement method (whatever its code and
  arguments), each generated action method, a generated method called by name, \<open>beep\<close>,
  \<open>insert\<close> with each of the four known modes (which returns normally), and
  \<open>_write\<close> itself. The raw
  \<open>write\<close> does not look at \<open>enabled\<close>: when the controller is not buffering it
  appends one write call (and the \<open>data\<close> notification) to the record.
\<close>

theorem C1_disabled_gate:
  assumes "\<not> enabled c"
  shows "movement K H code arguments c = c
       \<and> action K code c = c
       \<and> invoke K H m arguments c = c
       \<and> snd (call_method K H name arguments c) = c
       \<and> beep K c = c
       \<and> insert' K H (Bool True) n c = (None, c)
       \<and> insert' K H (Bool False) n c = (None, c)
       \<and> insert' K H (Str ''line'') n c = (None, c)
       \<and> insert' K H (Str ''char'') n c = (None, c)
       \<and> priv_write c d = c
       \<and> (\<not> buffering c \<longrightarrow>
            stream_calls (write' c arguments) =
              stream_calls c @ [StreamWrite arguments, StreamEmit ''data'' (first_arg arguments)])"
proof -
  have gate: "\<And>d. priv_write c d = c"
    using assms by (rule priv_write_disabled)
  have mv: "\<And>code arguments. movement K H code arguments c = c"
    by (simp add: movement_def Let_def gate)
  have ac: "\<And>code. action K code c = c"
    by (simp add: action_def gate)
  have inv: "invoke K H m arguments c = c"
    by (cases m) (simp_all add: mv ac)
  have cm: "snd (call_method K H name arguments c) = c"
  proof (cases "generated K name")
    case None
    then show ?thesis by (simp add: call_method_def)
  next
    case (Some g)
    then show ?thesis by (cases g) (simp_all add: call_method_def mv ac)
  qed
  have ins: "insert' K H (Bool True) n c = (None, c)" "insert' K H (Bool False) n c = (None, c)"
    "insert' K H (Str ''line'') n c = (None, c)" "insert' K H (Str ''char'') n c = (None, c)"
    by (simp_all add: insert'_def Let_def gate)
  have raw: "\<not> buffering c \<longrightarrow>
            stream_calls (write' c arguments) =
              stream_calls c @ [StreamWrite arguments, StreamEmit ''data'' (first_arg arguments)]"
    by (simp add: write'_def)
  show ?thesis
    using mv ac inv cm ins raw gate by (simp add: beep_def)
qed

theorem C1_disabled_gate_witness:
  "\<not> enabled (disable example_cursor)
   \<and> movement example_consts example_host ''A'' [Num (Finite 2)] (disable example_cursor)
       = disable example_cursor
   \<and> snd (call_method example_consts example_host ''eraseLine'' [] (disable example_cursor))
       = disable example_cursor
   \<and> beep example_consts (disable example_cursor) = disable example_cursor
   \<and> insert' example_consts example_host (Str ''line'') (Num (Finite 3)) (disable example_cursor)
       = (None, disable example_cursor)
   \<and> stream_calls (write' (disable example_cursor) [Str ''x'']) =
       [StreamOn ''newline'', StreamWrite [Str ''x''], StreamEmit ''data'' (Str ''x'')]"
proof -
  have off: "\<not> enabled (disable example_cursor)"
    by (simp add: disable_def)
  have plain: "\<not> buffering (disable example_cursor)"
    "stream_calls (disable example_cursor) = [StreamOn ''newline'']"
    by (simp_all add: disable_def example_cursor_def)
  show ?thesis
    using off plain
      C1_disabled_gate [OF off, of example_consts example_host "''A''" "[Num (Finite 2)]"]
      C1_disabled_gate [OF off, of example_consts example_host _ "[]" _ "''eraseLine''"]
      C1_disabled_gate [OF off, of example_consts example_host _ _ _ _ "Num (Finite 3)"]
      C1_disabled_gate [OF off, of _ _ _ "[Str ''x'']"]
    by simp
qed

section \<open>Buffering and flushing\<close>

text \<open>
  From a controller that is not buffering and whose queue is empty (as the constructor
  leaves it), \<open>buffer(); write('a'); write('b')\<close> makes no call on the stream, and
  \<open>flush()\<close> then returns normally having made exactly one write call, with the
  payload \<open>'ab'\<close> (followed by the \<open>data\<close> notification of \<open>write\<close>); afterwards
  \<open>buffering\<close> is false and the queue is empty. \<open>flush()\<close> on an empty queue,
  buffering or not, returns normally and makes one write call with the empty string.
\<close>

lemma buffer_write_flush_from_empty_queue:
  assumes "\<not> buffering c" and "priv_buffer c = []"
  shows "stream_calls (write' (write' (buffer c) [Str ''a'']) [Str ''b'']) = stream_calls c
       \<and> flush H (write' (write' (buffer c) [Str ''a'']) [Str ''b'']) =
           (None, c\<lparr>stream_calls := stream_calls c @
                      [StreamWrite [Str ''ab''], StreamEmit ''data'' (Str ''ab'')]\<rparr>)
       \<and> \<not> buffering (snd (flush H (write' (write' (buffer c) [Str ''a'']) [Str ''b''])))
       \<and> priv_buffer (snd (flush H (write' (write' (buffer c) [Str ''a'']) [Str ''b'']))) = []
       \<and> flush H (c\<lparr>buffering := b\<rparr>) =
           (None, c\<lparr>stream_calls := stream_calls c @
                      [StreamWrite [Str []], StreamEmit ''data'' (Str [])]\<rparr>)"
proof -
  let ?c3 = "write' (write' (buffer c) [Str ''a'']) [Str ''b'']"
  have queued: "?c3 = c\<lparr>buffering := True, priv_buffer := [[Str ''a''], [Str ''b'']]\<rparr>"
    using assms by (simp add: write'_def buffer_def)
  have fl: "flush H ?c3 =
           (None, c\<lparr>stream_calls := stream_calls c @
                      [StreamWrite [Str ''ab''], StreamEmit ''data'' (Str ''ab'')]\<rparr>)"
    unfolding queued using assms
    by (simp add: flush_def write'_def join_def newline_notifications_plain)
  have empty: "flush H (c\<lparr>buffering := b\<rparr>) =
           (None, c\<lparr>stream_calls := stream_calls c @
                      [StreamWrite [Str []], StreamEmit ''data'' (Str [])]\<rparr>)"
    using assms by (simp add: flush_def write'_def join_def newline_notifications_plain)
  show ?thesis
    unfolding fl empty using assms by (simp add: queued)
qed

text \<open>
  Claim C2 (the code departs from it). A controller that is not buffering can hold a
  queued entry: the one that a failed \<open>flush\<close> leaves, here after
  \<open>buffer(); write('a', 'utf8'); flush()\<close> on the controller that the constructor
  returns. Starting from it, \<open>buffer(); write('a'); write('b')\<close> makes no call on the
  stream and \<open>flush()\<close> throws \<open>Unexpected args length: 2\<close> again: the stream
  receives no write call at all, and the three entries stay queued with \<open>buffering\<close>
  false.
\<close>

theorem C2_sequence_after_failed_flush:
  "failed_flush_cursor = example_cursor\<lparr>priv_buffer := [[Str ''a'', Str ''utf8'']]\<rparr>
   \<and> \<not> buffering failed_flush_cursor
   \<and> stream_calls failed_flush_cursor = [StreamOn ''newline'']
   \<and> flush example_host
        (write' (write' (buffer failed_flush_cursor) [Str ''a'']) [Str ''b'']) =
       (Some (UnexpectedArgsLength 2),
        example_cursor\<lparr>priv_buffer :=
          [[Str ''a'', Str ''utf8''], [Str ''a''], [Str ''b'']]\<rparr>)
   \<and> stream_calls (snd (flush example_host
        (write' (write' (buffer failed_flush_cursor) [Str ''a'']) [Str ''b'']))) =
       [StreamOn ''newline'']"
  by (simp add: failed_flush_cursor_def flush_def write'_def buffer_def example_cursor_def)

text \<open>
  Claim C3 (the code departs from it). \<open>buffer(); write('a', 'utf8'); flush()\<close> on
  the controller that the constructor returns: the invariant holds before \<open>flush\<close>;
  \<open>flush\<close> throws \<open>Unexpected args length: 2\<close>, having already set
  \<open>buffering\<close> to false and not yet emptied the queue. The controller it leaves has
  \<open>buffering\<close> false and the entry still queued, so the invariant does not hold
  after the failed flush.
\<close>

theorem C3_failed_flush_state:
  "buffer_invariant (write' (buffer example_cursor) [Str ''a'', Str ''utf8''])
   \<and> flush example_host (write' (buffer example_cursor) [Str ''a'', Str ''utf8'']) =
       (Some (UnexpectedArgsLength 2),
        example_cursor\<lparr>priv_buffer := [[Str ''a'', Str ''utf8'']]\<rparr>)
   \<and> \<not> buffering (example_cursor\<lparr>priv_buffer := [[Str ''a'', Str ''utf8'']]\<rparr>)
   \<and> \<not> buffer_invariant (example_cursor\<lparr>priv_buffer := [[Str ''a'', Str ''utf8'']]\<rparr>)"
  by (simp add: flush_def write'_def buffer_def example_cursor_def buffer_invariant_def)

section \<open>enable and disable\<close>

text \<open>
  Claim C10. \<open>enable()\<close> sets \<open>enabled\<close> to true and \<open>disable()\<close> sets it to false;
  the controller each returns differs from the one it was called on in that field only:
  the stream, \<open>buffering\<close>, the queue, \<open>newlines\<close> and the four attribute flags are
  the same (and so is the record of calls on the stream).
\<close>

theorem C10_enable_disable_frame:
  "enable c = c\<lparr>enabled := True\<rparr> \<and> disable c = c\<lparr>enabled := False\<rparr>
   \<and> enabled (enable c) \<and> \<not> enabled (disable c)
   \<and> stream (enable c) = stream c \<and> stream (disable c) = stream c
   \<and> buffering (enable c) = buffering c \<and> buffering (disable c) = buffering c
   \<and> priv_buffer (enable c) = priv_buffer c \<and> priv_buffer (disable c) = priv_buffer c
   \<and> newlines (enable c) = newlines c \<and> newlines (disable c) = newlines c
   \<and> bold (enable c) = bold c \<and> bold (disable c) = bold c
   \<and> italic (enable c) = italic c \<and> italic (disable c) = italic c
   \<and> inverse' (enable c) = inverse' c \<and> inverse' (disable c) = inverse' c
   \<and> underline (enable c) = underline c \<and> underline (disable c) = underline c
   \<and> stream_calls (enable c) = stream_calls c \<and> stream_calls (disable c) = stream_calls c"
  by (simp add: enable_def disable_def)

section \<open>Axis normalisation and the movement methods\<close>

text \<open>
  Claim C6. \<open>toAxis\<close> gives 1 for \<open>undefined\<close>, for \<open>NaN\<close> and for the two
  infinities, and the floor of every other number: 3 for 3.7 and -4 for -3.7 (the floor,
  not the truncation -3). A movement method called with arguments hands to the gated
  \<open>_write\<close> the prefix, the normalised arguments joined with \<open>;\<close>, and then its
  code; called with no argument, the prefix and the code alone. On an enabled
  controller that sequence is what the stream receives, in one write call, when the
  controller is not buffering, and what is queued, as one entry, when it is.
\<close>

theorem C6_axis_normalisation:
  "toAxis H Undefined = Finite 1
   \<and> toAxis H (Num NaN) = Finite 1
   \<and> toAxis H (Num PosInf) = Finite 1
   \<and> toAxis H (Num NegInf) = Finite 1
   \<and> toAxis H (Num (Finite q)) = Finite (of_int \<lfloor>q\<rfloor>)
   \<and> toAxis H (Num (Finite (37 / 10))) = Finite 3
   \<and> toAxis H (Num (Finite (- (37 / 10)))) = Finite (- 4)
   \<and> movement K H code (a # rest) c =
       priv_write c (Str (prefix K @
         join_strings '';'' (map (\<lambda>v. num_text H (toAxis H v)) (a # rest)) @ code))
   \<and> movement K H code [Num (Finite (37 / 10)), Undefined, Num (Finite (- (37 / 10)))] c =
       priv_write c (Str (prefix K @ ''3;1;-4'' @ code))
   \<and> movement K H code [] c = priv_write c (Str (prefix K @ code))
   \<and> (enabled c \<and> \<not> buffering c \<longrightarrow>
        stream_calls (movement K H code (a # rest) c) =
          stream_calls c @
            [StreamWrite [Str (prefix K @
               join_strings '';'' (map (\<lambda>v. num_text H (toAxis H v)) (a # rest)) @ code)],
             StreamEmit ''data'' (Str (prefix K @
               join_strings '';'' (map (\<lambda>v. num_text H (toAxis H v)) (a # rest)) @ code))]
      \<and> stream_calls (movement K H code [] c) =
          stream_calls c @
            [StreamWrite [Str (prefix K @ code)], StreamEmit ''data'' (Str (prefix K @ code))]
      \<and> priv_buffer (movement K H code (a # rest) c) = priv_buffer c
      \<and> priv_buffer (movement K H code [] c) = priv_buffer c)
   \<and> (enabled c \<and> buffering c \<longrightarrow>
        priv_buffer (movement K H code (a # rest) c) =
          priv_buffer c @
            [[Str (prefix K @
               join_strings '';'' (map (\<lambda>v. num_text H (toAxis H v)) (a # rest)) @ code)]]
      \<and> priv_buffer (movement K H code [] c) = priv_buffer c @ [[Str (prefix K @ code)]]
      \<and> stream_calls (movement K H code (a # rest) c) = stream_calls c
      \<and> stream_calls (movement K H code [] c) = stream_calls c)"
proof -
  have several: "movement K H code (a # rest) c =
       priv_write c (Str (prefix K @
         join_strings '';'' (map (\<lambda>v. num_text H (toAxis H v)) (a # rest)) @ code))" for a rest
    unfolding movement_def Let_def toArray_id join_numbers by simp
  have three: "movement K H code [Num (Finite (37 / 10)), Undefined, Num (Finite (- (37 / 10)))] c =
       priv_write c (Str (prefix K @ ''3;1;-4'' @ code))"
    unfolding several by (simp add: floor_examples)
  have none: "movement K H code [] c = priv_write c (Str (prefix K @ code))"
    by (simp add: movement_def)
  have axis: "toAxis H Undefined = Finite 1
   \<and> toAxis H (Num NaN) = Finite 1
   \<and> toAxis H (Num PosInf) = Finite 1
   \<and> toAxis H (Num NegInf) = Finite 1
   \<and> toAxis H (Num (Finite q)) = Finite (of_int \<lfloor>q\<rfloor>)
   \<and> toAxis H (Num (Finite (37 / 10))) = Finite 3
   \<and> toAxis H (Num (Finite (- (37 / 10)))) = Finite (- 4)"
    by (simp add: floor_examples)
  have direct: "enabled c \<and> \<not> buffering c \<longrightarrow>
        stream_calls (movement K H code (a # rest) c) =
          stream_calls c @
            [StreamWrite [Str (prefix K @
               join_strings '';'' (map (\<lambda>v. num_text H (toAxis H v)) (a # rest)) @ code)],
             StreamEmit ''data'' (Str (prefix K @
               join_strings '';'' (map (\<lambda>v. num_text H (toAxis H v)) (a # rest)) @ code))]
      \<and> stream_calls (movement K H code [] c) =
          stream_calls c @
            [StreamWrite [Str (prefix K @ code)], StreamEmit ''data'' (Str (prefix K @ code))]
      \<and> priv_buffer (movement K H code (a # rest) c) = priv_buffer c
      \<and> priv_buffer (movement K H code [] c) = priv_buffer c"
    unfolding several none by (simp add: priv_write_def write'_def)
  have queued: "enabled c \<and> buffering c \<longrightarrow>
        priv_buffer (movement K H code (a # rest) c) =
          priv_buffer c @
            [[Str (prefix K @
               join_strings '';'' (map (\<lambda>v. num_text H (toAxis H v)) (a # rest)) @ code)]]
      \<and> priv_buffer (movement K H code [] c) = priv_buffer c @ [[Str (prefix K @ code)]]
      \<and> stream_calls (movement K H code (a # rest) c) = stream_calls c
      \<and> stream_calls (movement K H code [] c) = stream_calls c"
    unfolding several none by (simp add: priv_write_def write'_def)
  show ?thesis
    using axis several [of a rest] three none direct queued by blast
qed

theorem C6_axis_normalisation_witness:
  "enabled example_cursor \<and> \<not> buffering example_cursor
   \<and> stream_calls (movement example_consts example_host ''A''
        [Num (Finite (37 / 10)), Undefined, Num (Finite (- (37 / 10)))] example_cursor) =
       [StreamOn ''newline'',
        StreamWrite [Str [CHR 0x1B, CHR ''['', CHR ''3'', CHR '';'', CHR ''1'', CHR '';'',
                          CHR ''-'', CHR ''4'', CHR ''A'']],
        StreamEmit ''data'' (Str [CHR 0x1B, CHR ''['', CHR ''3'', CHR '';'', CHR ''1'', CHR '';'',
                          CHR ''-'', CHR ''4'', CHR ''A''])]
   \<and> stream_calls (movement example_consts example_host ''A'' [] example_cursor) =
       [StreamOn ''newline'',
        StreamWrite [Str [CHR 0x1B, CHR ''['', CHR ''A'']],
        StreamEmit ''data'' (Str [CHR 0x1B, CHR ''['', CHR ''A''])]
   \<and> enabled (buffer example_cursor) \<and> buffering (buffer example_cursor)
   \<and> priv_buffer (movement example_consts example_host ''A'' [Num (Finite 2)]
        (buffer example_cursor)) =
       [[Str [CHR 0x1B, CHR ''['', CHR ''2'', CHR ''A'']]]
   \<and> stream_calls (movement example_consts example_host ''A'' [Num (Finite 2)]
        (buffer example_cursor)) = [StreamOn ''newline'']"
proof -
  have on: "enabled example_cursor" "\<not> buffering example_cursor"
    "stream_calls example_cursor = [StreamOn ''newline'']"
    by (simp_all add: example_cursor_def)
  have buf: "enabled (buffer example_cursor)" "buffering (buffer example_cursor)"
    "priv_buffer (buffer example_cursor) = []"
    "stream_calls (buffer example_cursor) = [StreamOn ''newline'']"
    by (simp_all add: buffer_def example_cursor_def)
  have pre: "prefix example_consts = [CHR 0x1B, CHR ''['']"
    by (simp add: example_consts_def)
  have three: "stream_calls (movement example_consts example_host ''A''
        [Num (Finite (37 / 10)), Undefined, Num (Finite (- (37 / 10)))] example_cursor) =
      stream_calls example_cursor @
        [StreamWrite [Str (prefix example_consts @
           join_strings '';'' (map (\<lambda>v. num_text example_host (toAxis example_host v))
             [Num (Finite (37 / 10)), Undefined, Num (Finite (- (37 / 10)))]) @ ''A'')],
         StreamEmit ''data'' (Str (prefix example_consts @
           join_strings '';'' (map (\<lambda>v. num_text example_host (toAxis example_host v))
             [Num (Finite (37 / 10)), Undefined, Num (Finite (- (37 / 10)))]) @ ''A''))]"
    using on C6_axis_normalisation [where K = example_consts and H = example_host
        and code = "''A''" and c = example_cursor and a = "Num (Finite (37 / 10))"
        and rest = "[Undefined, Num (Finite (- (37 / 10)))]"]
    by blast
  have bare: "stream_calls (movement example_consts example_host ''A'' [] example_cursor) =
      stream_calls example_cursor @
        [StreamWrite [Str (prefix example_consts @ ''A'')],
         StreamEmit ''data'' (Str (prefix example_consts @ ''A''))]"
    using on C6_axis_normalisation [where K = example_consts and H = example_host
        and code = "''A''" and c = example_cursor]
    by blast
  have held: "priv_buffer (movement example_consts example_host ''A'' [Num (Finite 2)]
        (buffer example_cursor)) =
      priv_buffer (buffer example_cursor) @
        [[Str (prefix example_consts @
           join_strings '';'' (map (\<lambda>v. num_text example_host (toAxis example_host v))
             [Num (Finite 2)]) @ ''A'')]]
    \<and> stream_calls (movement example_consts example_host ''A'' [Num (Finite 2)]
        (buffer example_cursor)) = stream_calls (buffer example_cursor)"
    using buf C6_axis_normalisation [where K = example_consts and H = example_host
        and code = "''A''" and c = "buffer example_cursor" and a = "Num (Finite 2)"
        and rest = "[]"]
    by blast
  show ?thesis
    unfolding three bare using on buf held by (simp add: pre floor_examples)
qed

section \<open>The compound move\<close>

text \<open>
  Claim C7. For every \<open>x\<close> and \<open>y\<close>, \<open>move(x, y)\<close> makes the calls of the
  decomposition that the spec words (\<open>move_plan\<close>: the vertical call first,
  \<open>moveUp(-y)\<close> for a negative \<open>y\<close>, \<open>moveDown(y)\<close> for a positive one, then
  \<open>forward(x)\<close> for a positive \<open>x\<close>, \<open>backward(-x)\<close> for a negative one, nothing
  for a zero), in that order. \<open>move(3, -2)\<close> is \<open>moveUp(2)\<close> then \<open>forward(3)\<close>:
  on an enabled controller whose tables define the two movements it emits exactly the
  two sequences prefix \<open>2\<close> up-code and prefix \<open>3\<close> forward-code, in this order.
  \<open>move(0, 0)\<close> emits nothing: the controller is unchanged.
\<close>

theorem C7_move_decomposition:
  "move K H x y c = run_calls K H (move_plan H x y) c
   \<and> move_plan H (Num (Finite 3)) (Num (Finite (- 2))) =
       [(''moveUp'', Num (Finite 2)), (''forward'', Num (Finite 3))]
   \<and> move_plan H (Num (Finite 0)) (Num (Finite 0)) = []
   \<and> move K H (Num (Finite 0)) (Num (Finite 0)) c = (None, c)
   \<and> (enabled c \<and> generated K ''moveUp'' = Some (Movement up)
        \<and> generated K ''forward'' = Some (Movement fwd) \<longrightarrow>
        move K H (Num (Finite 3)) (Num (Finite (- 2))) c =
          call_method K H ''forward'' [Num (Finite 3)]
            (snd (call_method K H ''moveUp'' [Num (Finite 2)] c))
        \<and> move K H (Num (Finite 3)) (Num (Finite (- 2))) c =
          (None, write' (write' c [Str (prefix K @ ''2'' @ up)]) [Str (prefix K @ ''3'' @ fwd)]))"
proof -
  have plan: "move_plan H (Num (Finite 3)) (Num (Finite (- 2))) =
       [(''moveUp'', Num (Finite 2)), (''forward'', Num (Finite 3))]"
    by (simp add: move_plan_def)
  have still: "move_plan H (Num (Finite 0)) (Num (Finite 0)) = []"
    by (simp add: move_plan_def)
  have two: "move K H (Num (Finite 3)) (Num (Finite (- 2))) c =
          call_method K H ''forward'' [Num (Finite 3)]
            (snd (call_method K H ''moveUp'' [Num (Finite 2)] c))
        \<and> move K H (Num (Finite 3)) (Num (Finite (- 2))) c =
          (None, write' (write' c [Str (prefix K @ ''2'' @ up)]) [Str (prefix K @ ''3'' @ fwd)])"
    if en: "enabled c" and u: "generated K ''moveUp'' = Some (Movement up)"
      and f: "generated K ''forward'' = Some (Movement fwd)"
  proof -
    have up2: "call_method K H ''moveUp'' [Num (Finite 2)] c =
        (None, write' c [Str (prefix K @ ''2'' @ up)])"
      using call_movement [OF u en, of H 2] by simp
    have en': "enabled (write' c [Str (prefix K @ ''2'' @ up)])"
      using en by simp
    have fwd3: "call_method K H ''forward'' [Num (Finite 3)] (write' c [Str (prefix K @ ''2'' @ up)]) =
        (None, write' (write' c [Str (prefix K @ ''2'' @ up)]) [Str (prefix K @ ''3'' @ fwd)])"
      using call_movement [OF f en', of H 3] by simp
    show ?thesis
      unfolding move_refines_plan plan using up2 fwd3 by simp
  qed
  have zero: "move K H (Num (Finite 0)) (Num (Finite 0)) c = (None, c)"
    by (simp add: move_refines_plan still)
  show ?thesis
    using move_refines_plan [of K H x y c] plan still zero two by blast
qed

theorem C7_move_decomposition_witness:
  "enabled example_cursor
   \<and> generated example_consts ''moveUp'' = Some (Movement ''A'')
   \<and> generated example_consts ''forward'' = Some (Movement ''C'')
   \<and> move example_consts example_host (Num (Finite 3)) (Num (Finite (- 2))) example_cursor =
       (None, example_cursor\<lparr>stream_calls :=
          [StreamOn ''newline'',
           StreamWrite [Str [CHR 0x1B, CHR ''['', CHR ''2'', CHR ''A'']],
           StreamEmit ''data'' (Str [CHR 0x1B, CHR ''['', CHR ''2'', CHR ''A'']),
           StreamWrite [Str [CHR 0x1B, CHR ''['', CHR ''3'', CHR ''C'']],
           StreamEmit ''data'' (Str [CHR 0x1B, CHR ''['', CHR ''3'', CHR ''C''])]\<rparr>)"
proof -
  have h: "enabled example_cursor"
    "generated example_consts ''moveUp'' = Some (Movement ''A'')"
    "generated example_consts ''forward'' = Some (Movement ''C'')"
    by (simp_all add: example_cursor_def generated_def example_consts_def)
  have w: "write' (write' example_cursor [Str (prefix example_consts @ ''2A'')])
             [Str (prefix example_consts @ ''3C'')] =
       example_cursor\<lparr>stream_calls :=
          [StreamOn ''newline'',
           StreamWrite [Str [CHR 0x1B, CHR ''['', CHR ''2'', CHR ''A'']],
           StreamEmit ''data'' (Str [CHR 0x1B, CHR ''['', CHR ''2'', CHR ''A'']),
           StreamWrite [Str [CHR 0x1B, CHR ''['', CHR ''3'', CHR ''C'']],
           StreamEmit ''data'' (Str [CHR 0x1B, CHR ''['', CHR ''3'', CHR ''C''])]\<rparr>"
    by (simp add: write'_def example_cursor_def example_consts_def newline_notifications_def)
  have t: "move example_consts example_host (Num (Finite 3)) (Num (Finite (- 2))) example_cursor =
       (None, write' (write' example_cursor [Str (prefix example_consts @ ''2'' @ ''A'')])
                [Str (prefix example_consts @ ''3'' @ ''C'')])"
    using h C7_move_decomposition [of example_consts example_host "Num (Finite 3)"
        "Num (Finite (- 2))" example_cursor "''A''" "''C''"]
    by blast
  show ?thesis
    using h w unfolding t by simp
qed

section \<open>insert\<close>

text \<open>
  Claim C8. On an enabled controller \<open>insert(true)\<close> emits prefix \<open>4h\<close>,
  \<open>insert(false)\<close> emits prefix \<open>l\<close>, \<open>insert('line', n)\<close> emits the prefix, the
  text of \<open>n\<close> coerced to a number, and \<open>L\<close>, and \<open>insert('char', n)\<close> the same
  with \<open>@\<close>; a falsy \<open>n\<close> counts as 1. \<open>insert('line', 3)\<close> emits prefix \<open>3L\<close>.
  To emit is to pass the sequence to \<open>write\<close>.
\<close>

theorem C8_insert_modes:
  assumes "enabled c"
  shows "insert' K H (Bool True) n c = (None, write' c [Str (prefix K @ ''4h'')])
       \<and> insert' K H (Bool False) n c = (None, write' c [Str (prefix K @ ''l'')])
       \<and> insert' K H (Str ''line'') n c =
           (None, write' c [Str (prefix K @
             num_text H (ToNumber H (if truthy n then n else Num (Finite 1))) @ ''L'')])
       \<and> insert' K H (Str ''char'') n c =
           (None, write' c [Str (prefix K @
             num_text H (ToNumber H (if truthy n then n else Num (Finite 1))) @ ''@'')])
       \<and> insert' K H (Str ''line'') (Num (Finite 3)) c =
           (None, write' c [Str (prefix K @ ''3L'')])
       \<and> insert' K H (Str ''char'') (Num (Finite 3)) c =
           (None, write' c [Str (prefix K @ ''3@'')])
       \<and> (\<not> truthy n \<longrightarrow>
            insert' K H (Str ''line'') n c = (None, write' c [Str (prefix K @ ''1L'')])
          \<and> insert' K H (Str ''char'') n c = (None, write' c [Str (prefix K @ ''1@'')]))"
  using assms by (simp add: insert'_def priv_write_def Let_def)

theorem C8_insert_modes_witness:
  "enabled example_cursor
   \<and> fst (insert' example_consts example_host (Bool True) Undefined example_cursor) = None
   \<and> stream_calls (snd (insert' example_consts example_host (Bool True) Undefined example_cursor)) =
       [StreamOn ''newline'',
        StreamWrite [Str [CHR 0x1B, CHR ''['', CHR ''4'', CHR ''h'']],
        StreamEmit ''data'' (Str [CHR 0x1B, CHR ''['', CHR ''4'', CHR ''h''])]
   \<and> stream_calls (snd (insert' example_consts example_host (Str ''line'') (Num (Finite 3))
         example_cursor)) =
       [StreamOn ''newline'',
        StreamWrite [Str [CHR 0x1B, CHR ''['', CHR ''3'', CHR ''L'']],
        StreamEmit ''data'' (Str [CHR 0x1B, CHR ''['', CHR ''3'', CHR ''L''])]"
proof -
  have h: "enabled example_cursor"
    by (simp add: example_cursor_def)
  show ?thesis
    using h C8_insert_modes [OF h, of example_consts example_host Undefined]
    by (simp add: write'_def example_cursor_def example_consts_def)
qed

section \<open>Unknown types of erase, delete and insert\<close>

text \<open>
  What the three methods do with an unknown type, when no table names \<open>emit\<close>:
  \<open>erase\<close> with a falsy type or a type other than \<open>'$'\<close> and \<open>'^'\<close> whose derived
  method name is not defined, \<open>delete\<close> with a falsy type or one whose derived method
  name is not defined, and \<open>insert\<close> with a mode other than \<open>true\<close>, \<open>false\<close>,
  \<open>'line'\<close> and \<open>'char'\<close> reach the call of \<open>this.emit\<close>, which throws a
  TypeError; the controller is as it was. \<open>insert(false)\<close> is a known mode.
\<close>

lemma unknown_type_throws:
  assumes "generated K ''emit'' = None"
  shows "\<not> truthy type \<or>
           type \<noteq> Str ''$'' \<and> type \<noteq> Str ''^''
           \<and> generated K (''erase'' @ ucFirst H (ToString H type)) = None
         \<Longrightarrow> erase K H type c = (Some TypeError, c)"
    and "\<not> truthy type \<or> generated K (''delete'' @ ucFirst H (ToString H type)) = None
         \<Longrightarrow> delete' K H type n c = (Some TypeError, c)"
    and "mode \<noteq> Bool True \<Longrightarrow> mode \<noteq> Bool False \<Longrightarrow> mode \<noteq> Str ''line''
         \<Longrightarrow> mode \<noteq> Str ''char'' \<Longrightarrow> insert' K H mode n c = (Some TypeError, c)"
  using assms by (auto simp: erase_def delete'_def insert'_def call_method_def Let_def)

lemma insert_false_is_known:
  "insert' example_consts example_host (Bool False) Undefined example_cursor =
     (None, example_cursor\<lparr>stream_calls :=
        [StreamOn ''newline'',
         StreamWrite [Str [CHR 0x1B, CHR ''['', CHR ''l'']],
         StreamEmit ''data'' (Str [CHR 0x1B, CHR ''['', CHR ''l''])]\<rparr>)"
  by (simp add: insert'_def priv_write_def write'_def example_cursor_def example_consts_def
      newline_notifications_def)

text \<open>
  Claim C4 (the code departs from it). On the controller that the constructor returns,
  with the example table (which names no \<open>emit\<close>): \<open>erase('bogus')\<close> derives the name
  \<open>eraseBogus\<close>, which is not defined, and \<open>delete(undefined)\<close> and
  \<open>insert('nonsense')\<close> have no known type either. Each reaches its call of
  \<open>this.emit\<close> (lines 175, 189, 208) and throws a TypeError there: no notification
  is raised and the method does not return the controller. No call is made on the
  stream and nothing is queued.
\<close>

theorem C4_unknown_type_throws:
  "generated example_consts ''emit'' = None
   \<and> generated example_consts (''erase'' @ ucFirst example_host ''bogus'') = None
   \<and> erase example_consts example_host (Str ''bogus'') example_cursor =
       (Some TypeError, example_cursor)
   \<and> delete' example_consts example_host Undefined Undefined example_cursor =
       (Some TypeError, example_cursor)
   \<and> insert' example_consts example_host (Str ''nonsense'') Undefined example_cursor =
       (Some TypeError, example_cursor)"
  by (simp add: erase_def delete'_def insert'_def call_method_def generated_def Let_def
      example_consts_def ucFirst_def toUpperCase_def ascii_def ascii_capital_def)

section \<open>save and restore\<close>

text \<open>
  Claim C5, as amended. \<open>save(withAttributes)\<close> and \<open>restore(withAttributes)\<close>
  do what \<open>_write\<close> does with the code they select, the one with attributes when
  \<open>withAttributes\<close> is truthy and the position-only one otherwise: nothing on a
  disabled controller; on an enabled one they call \<open>write\<close>, which queues the
  sequence while \<open>buffering\<close> is true (no call on the stream) and writes it to the
  stream otherwise (the queue unchanged).
\<close>

theorem C5_save_restore:
  "save K w c =
     priv_write c (Str (if truthy w then saveCursor (codes K) else savePosition (codes K)))
   \<and> restore K w c =
     priv_write c (Str (if truthy w then restoreCursor (codes K) else restorePosition (codes K)))
   \<and> (\<not> enabled c \<longrightarrow> save K w c = c \<and> restore K w c = c)
   \<and> (enabled c \<and> buffering c \<longrightarrow>
        stream_calls (save K w c) = stream_calls c
      \<and> priv_buffer (save K w c) = priv_buffer c @
          [[Str (if truthy w then saveCursor (codes K) else savePosition (codes K))]]
      \<and> stream_calls (restore K w c) = stream_calls c
      \<and> priv_buffer (restore K w c) = priv_buffer c @
          [[Str (if truthy w then restoreCursor (codes K) else restorePosition (codes K))]])
   \<and> (enabled c \<and> \<not> buffering c \<longrightarrow>
        stream_calls (save K w c) = stream_calls c @
          [StreamWrite [Str (if truthy w then saveCursor (codes K) else savePosition (codes K))],
           StreamEmit ''data''
             (Str (if truthy w then saveCursor (codes K) else savePosition (codes K)))]
      \<and> priv_buffer (save K w c) = priv_buffer c
      \<and> stream_calls (restore K w c) = stream_calls c @
          [StreamWrite [Str (if truthy w then restoreCursor (codes K) else restorePosition (codes K))],
           StreamEmit ''data''
             (Str (if truthy w then restoreCursor (codes K) else restorePosition (codes K)))]
      \<and> priv_buffer (restore K w c) = priv_buffer c)"
  by (simp add: save_def restore_def priv_write_def write'_def)

theorem C5_save_restore_witness:
  "enabled (buffer example_cursor) \<and> buffering (buffer example_cursor)
   \<and> priv_buffer (restore example_consts Undefined (buffer example_cursor)) =
       [[Str [CHR 0x1B, CHR ''['', CHR ''u'']]]
   \<and> enabled example_cursor \<and> \<not> buffering example_cursor
   \<and> stream_calls (save example_consts (Bool True) example_cursor) =
       [StreamOn ''newline'', StreamWrite [Str [CHR 0x1B, CHR ''7'']],
        StreamEmit ''data'' (Str [CHR 0x1B, CHR ''7''])]
   \<and> \<not> enabled (disable example_cursor)
   \<and> save example_consts (Bool True) (disable example_cursor) = disable example_cursor"
proof -
  have queued: "enabled (buffer example_cursor)" "buffering (buffer example_cursor)"
    "priv_buffer (buffer example_cursor) = []"
    by (simp_all add: buffer_def example_cursor_def)
  have direct: "enabled example_cursor" "\<not> buffering example_cursor"
    "stream_calls example_cursor = [StreamOn ''newline'']"
    by (simp_all add: example_cursor_def)
  have off: "\<not> enabled (disable example_cursor)"
    by (simp add: disable_def)
  have table: "saveCursor (codes example_consts) = [CHR 0x1B, CHR ''7'']"
    "restorePosition (codes example_consts) = [CHR 0x1B, CHR ''['', CHR ''u'']"
    by (simp_all add: example_consts_def)
  have a: "priv_buffer (restore example_consts Undefined (buffer example_cursor)) =
      priv_buffer (buffer example_cursor) @
        [[Str (if truthy Undefined then restoreCursor (codes example_consts)
               else restorePosition (codes example_consts))]]"
    using queued C5_save_restore [of example_consts Undefined "buffer example_cursor"]
    by blast
  have b: "stream_calls (save example_consts (Bool True) example_cursor) =
      stream_calls example_cursor @
        [StreamWrite [Str (if truthy (Bool True) then saveCursor (codes example_consts)
                           else savePosition (codes example_consts))],
         StreamEmit ''data''
           (Str (if truthy (Bool True) then saveCursor (codes example_consts)
                 else savePosition (codes example_consts)))]"
    using direct C5_save_restore [of example_consts "Bool True" example_cursor]
    by blast
  have c: "save example_consts (Bool True) (disable example_cursor) = disable example_cursor"
    using off C5_save_restore [of example_consts "Bool True" "disable example_cursor"]
    by blast
  show ?thesis
    unfolding a b c using queued direct off by (simp add: table)
qed

text \<open>
  Claim C5 as stated fails: on the enabled example controller after \<open>buffer()\<close>,
  \<open>save(true)\<close> makes no call on the stream and queues its sequence.
\<close>

theorem C5_buffered_save_counterexample:
  "enabled (buffer example_cursor) \<and> buffering (buffer example_cursor)
   \<and> stream_calls (save example_consts (Bool True) (buffer example_cursor)) =
       stream_calls (buffer example_cursor)
   \<and> priv_buffer (save example_consts (Bool True) (buffer example_cursor)) =
       [[Str [CHR 0x1B, CHR ''7'']]]"
  by (simp add: save_def write'_def buffer_def example_cursor_def example_consts_def)

section \<open>Construction\<close>

text \<open>
  Claim C9 (the code departs from it). \<open>Cursor(null)\<close> passes the test
  \<open>typeof stream !== 'object'\<close> and throws the TypeError of reading \<open>null.write\<close>,
  not the error of line 13. \<open>Cursor(stream, null)\<close>, with a stream whose \<open>isTTY\<close>
  is true, succeeds with \<open>enabled\<close> false: \<open>options && options.enabled\<close> is
  \<open>null\<close>, which is not \<open>undefined\<close>, so \<open>isTTY\<close> is never read.
\<close>

theorem C9_null_arguments:
  "Cursor (Prim Null) (Prim Undefined) = Inl TypeError
   \<and> get_prop example_stream ''isTTY'' = Some (Prim (Bool True))
   \<and> Cursor example_stream (Prim Null) = Inr (example_cursor\<lparr>enabled := False\<rparr>)"
  by (simp add: Cursor_def example_stream_def example_cursor_def)

end
